theory Spec2Isabelle
  imports Main "HOL-Library.Word"
begin

unbundle bit_operations_syntax

section \<open>Meter command class of node-zwave-js: payload decoding and encoding\<close>

text \<open>
  The development embeds \<^verbatim>\<open>src/lib/commandclass/MeterCC.ts\<close>: the constructors of
  \<^verbatim>\<open>MeterCCReport\<close> and \<^verbatim>\<open>MeterCCSupportedReport\<close> (the decode path) and
  \<^verbatim>\<open>MeterCCGet.serialize\<close> (the encode path).

  A \<^verbatim>\<open>Buffer\<close> is a list of bytes. A JavaScript number that holds a field value is a
  natural number: every one of them is read from bytes with \<^verbatim>\<open>&\<close>, \<^verbatim>\<open>>>>\<close>,
  \<^verbatim>\<open><<\<close> and \<^verbatim>\<open>|\<close>, which are \<open>AND\<close>, \<open>drop_bit\<close>, \<open>push_bit\<close> and \<open>OR\<close> here.
  The negotiated version (\<^verbatim>\<open>this.version\<close>) and the payload (\<^verbatim>\<open>this.payload\<close>) come
  from the base class \<^verbatim>\<open>CommandClass\<close>; they are arguments of the model.
\<close>

type_synonym byte = "8 word"

subsection \<open>Errors and the helpers imported by MeterCC.ts\<close>

text \<open>
  Every \<^verbatim>\<open>throw\<close> is a value: \<open>Inl\<close> of an error. \<open>PayloadTooShort\<close> is the typed decode
  failure of the validation primitive; \<open>Deserialization_NotImplemented\<close> is the error code
  the constructor of \<^verbatim>\<open>MeterCCGet\<close> throws.
\<close>

datatype error = PayloadTooShort | Deserialization_NotImplemented

text \<open>
  Modelled from the spec: \<^verbatim>\<open>validatePayload\<close> (util/misc) is not among the sources. It is
  the validation primitive of section 4.1: it fails with the typed payload-too-short decode
  error when the length condition does not hold, and does nothing otherwise. MeterCC.ts
  passes it the condition already evaluated, so the error carries no lengths.
\<close>

definition validatePayload :: "bool \<Rightarrow> error + unit" where
  "validatePayload ok = (if ok then Inr () else Inl PayloadTooShort)"

text \<open>
  \<^verbatim>\<open>Maybe<number>\<close> of values/Primitive: a number or the marker \<^verbatim>\<open>unknownNumber\<close>.
\<close>

datatype 'a Maybe = Known 'a | Unknown

definition unknownNumber :: "nat Maybe" where
  "unknownNumber = Unknown"

text \<open>
  The value of a scaled number is \<open>magnitude * 10 ^ (- precision)\<close>. JavaScript holds the
  nearest double; the model keeps the two exact components.
\<close>

record ScaledNumber =
  magnitude :: int
  precision :: nat

record FloatWithScale =
  fws_value :: ScaledNumber
  fws_scale :: nat
  fws_bytesRead :: nat

text \<open>Node's \<^verbatim>\<open>Buffer.readUInt16BE\<close>, called only where both bytes exist.\<close>

definition readUInt16BE :: "byte list \<Rightarrow> nat \<Rightarrow> nat" where
  "readUInt16BE buf offset = unat (buf ! offset) * 256 + unat (buf ! (offset + 1))"

text \<open>A big-endian unsigned and two's-complement signed integer of a whole byte list.\<close>

definition readUIntBE :: "byte list \<Rightarrow> nat" where
  "readUIntBE bs = foldl (\<lambda>acc b. acc * 256 + unat b) 0 bs"

definition readIntBE :: "byte list \<Rightarrow> int" where
  "readIntBE bs =
     (let u = int (readUIntBE bs); n = 8 * length bs
      in if 2 ^ (n - 1) \<le> u then u - 2 ^ n else u)"

text \<open>
  Modelled from the spec: \<^verbatim>\<open>parseFloatWithScale\<close> (values/Primitive) is not among the
  sources. It is the scaled-numeric codec of section 4.2. The first byte is a descriptor:
  bits 7..5 are the precision, bits 4..3 the byte-size selector (1 gives 1 byte, 2 gives
  2 bytes, 3 gives 4 bytes) and bits 2..0 the low bits of the scale. The magnitude follows
  as that many big-endian bytes, read as a two's-complement integer. The result is the
  value, the scale bits and the number of bytes consumed, \<open>1 + byte_size\<close>. A missing
  descriptor, a selector the spec gives no size for (0) and missing magnitude bytes are
  the typed decode failure.
\<close>

definition byteSize :: "nat \<Rightarrow> nat option" where
  "byteSize selector =
     (if selector = 1 then Some 1
      else if selector = 2 then Some 2
      else if selector = 3 then Some 4
      else None)"

definition parseFloatWithScale :: "byte list \<Rightarrow> error + FloatWithScale" where
  "parseFloatWithScale payload =
     (case payload of
        [] \<Rightarrow> Inl PayloadTooShort
      | d # rest \<Rightarrow>
          (let prec = drop_bit 5 (unat d AND 0xE0);
               selector = drop_bit 3 (unat d AND 0x18);
               scale = unat d AND 0x07
           in case byteSize selector of
                None \<Rightarrow> Inl PayloadTooShort
              | Some sz \<Rightarrow>
                  if length rest < sz then Inl PayloadTooShort
                  else Inr \<lparr>fws_value = \<lparr>magnitude = readIntBE (take sz rest), precision = prec\<rparr>,
                            fws_scale = scale,
                            fws_bytesRead = 1 + sz\<rparr>))"

text \<open>
  Modelled from the spec: \<^verbatim>\<open>parseBitMask\<close> (values/Primitive) is not among the sources.
  It is the bitmask codec of section 4.3: bit \<open>k\<close> of byte \<open>i\<close> set means that index
  \<open>(i * 8 + k) + origin\<close> is present. The indices are listed in ascending order.
\<close>

definition parseBitMask :: "byte list \<Rightarrow> nat \<Rightarrow> nat list" where
  "parseBitMask bitMask origin =
     map (\<lambda>p. p + origin)
       (filter (\<lambda>p. bit (bitMask ! (p div 8)) (p mod 8)) [0..<8 * length bitMask])"

text \<open>
  Modelled from the spec: \<^verbatim>\<open>lookupMeterScale\<close> and \<^verbatim>\<open>MeterScale\<close> (config/Meters) are
  not among the sources. The resolver of section 6 turns a meter type and a scale index into
  a labelled scale; the codec produces the numeric index only, so a \<open>MeterScale\<close> here is the
  pair it was looked up with.
\<close>

record MeterScale =
  ms_meterType :: nat
  ms_key :: nat

definition lookupMeterScale :: "nat \<Rightarrow> nat \<Rightarrow> MeterScale" where
  "lookupMeterScale type scale = \<lparr>ms_meterType = type, ms_key = scale\<rparr>"

subsection \<open>The enum RateType\<close>

definition RateType_Unspecified :: nat where "RateType_Unspecified = 0"
definition RateType_Consumed :: nat where "RateType_Consumed = 1"
definition RateType_Produced :: nat where "RateType_Produced = 2"

subsection \<open>MeterCCReport: the constructor decodes a payload\<close>

text \<open>
  A field the constructor has not assigned is \<^verbatim>\<open>undefined\<close>: \<open>None\<close> for
  \<open>r_previousValue\<close> and \<open>r_deltaTime\<close>, the two fields assigned inside branches. The other
  fields are assigned on every path that returns.
\<close>

record MeterCCReport =
  r_type :: nat
  r_scale :: MeterScale
  r_value :: ScaledNumber
  r_previousValue :: "ScaledNumber option"
  r_rateType :: nat
  r_deltaTime :: "nat Maybe option"

text \<open>
  Lines 74 to 88: the previous value, read with byte 1 of the payload as its descriptor,
  and the offset afterwards.
\<close>

definition readPreviousValue ::
  "byte list \<Rightarrow> nat \<Rightarrow> nat Maybe \<Rightarrow> nat \<Rightarrow> error + (ScaledNumber option \<times> nat)" where
  "readPreviousValue payload bytesRead deltaTime offset =
     (if deltaTime \<noteq> Known 0 \<and> offset + bytesRead \<le> length payload then
        (case parseFloatWithScale (payload ! 1 # drop offset payload) of
           Inl e \<Rightarrow> Inl e
         | Inr prev \<Rightarrow> Inr (Some (fws_value prev), offset + bytesRead))
      else Inr (None, offset))"

text \<open>Lines 89 to 95: the scale extension byte.\<close>

definition readScale2 :: "nat \<Rightarrow> byte list \<Rightarrow> nat \<Rightarrow> nat \<Rightarrow> nat" where
  "readScale2 version payload scale1 offset =
     (if 4 \<le> version \<and> scale1 = 7 \<and> offset + 1 \<le> length payload
      then unat (payload ! offset) else 0)"

definition MeterCCReport_new :: "nat \<Rightarrow> byte list \<Rightarrow> error + MeterCCReport" where
  "MeterCCReport_new version payload =
     (case validatePayload (2 \<le> length payload) of
        Inl e \<Rightarrow> Inl e
      | Inr _ \<Rightarrow>
          (let type = unat (payload ! 0) AND 0x1F;
               rateType = drop_bit 5 (unat (payload ! 0) AND 0x60);
               scale1Bit2 = drop_bit 7 (unat (payload ! 0) AND 0x80)
           in case parseFloatWithScale (drop 1 payload) of
                Inl e \<Rightarrow> Inl e
              | Inr cur \<Rightarrow>
                  (let bytesRead = fws_bytesRead cur;
                       offset = 2 + bytesRead;
                       scale1 = push_bit 2 scale1Bit2 OR fws_scale cur
                   in if 2 \<le> version \<and> offset + 2 \<le> length payload then
                        (let raw = readUInt16BE payload offset;
                             deltaTime = (if raw = 0xFFFF then unknownNumber else Known raw)
                         in case readPreviousValue payload bytesRead deltaTime (offset + 2) of
                              Inl e \<Rightarrow> Inl e
                            | Inr (previousValue, offset') \<Rightarrow>
                                (let scale2 = readScale2 version payload scale1 offset';
                                     scale = (if scale1 = 7 then scale1 + scale2 else scale1)
                                 in Inr \<lparr>r_type = type,
                                          r_scale = lookupMeterScale type scale,
                                          r_value = fws_value cur,
                                          r_previousValue = previousValue,
                                          r_rateType = rateType,
                                          r_deltaTime = Some deltaTime\<rparr>))
                      else
                        (let scale2 = 0;
                             scale = (if scale1 = 7 then scale1 + scale2 else scale1)
                         in Inr \<lparr>r_type = type,
                                  r_scale = lookupMeterScale type scale,
                                  r_value = fws_value cur,
                                  r_previousValue = None,
                                  r_rateType = rateType,
                                  r_deltaTime = Some (Known 0)\<rparr>))))"

subsection \<open>MeterCCGet: construction and serialize\<close>

record MeterCCGet =
  g_rateType :: "nat option"
  g_scale :: "nat option"

datatype MeterCCGet_arg =
  DeserializationOptions "byte list"
| MeterCCGetOptions "nat option" "nat option"

definition MeterCCGet_new :: "MeterCCGet_arg \<Rightarrow> error + MeterCCGet" where
  "MeterCCGet_new options =
     (case options of
        DeserializationOptions _ \<Rightarrow> Inl Deserialization_NotImplemented
      | MeterCCGetOptions rateType scale \<Rightarrow> Inr \<lparr>g_rateType = rateType, g_scale = scale\<rparr>)"

text \<open>
  An assignment to an element of a \<^verbatim>\<open>Buffer\<close> keeps the low 8 bits of the number and does
  nothing outside the buffer.
\<close>

definition bufferSet :: "byte list \<Rightarrow> nat \<Rightarrow> nat \<Rightarrow> byte list" where
  "bufferSet buf i v = (if i < length buf then buf[i := of_nat v] else buf)"

text \<open>
  \<^verbatim>\<open>serialize\<close> has no \<^verbatim>\<open>throw\<close>: the result is the payload it stores before it calls
  the base class. The scale is a non-negative integer; \<^verbatim>\<open>>>>\<close> works on its low 32 bits.
  The triple is \<open>(scale1, scale2, bufferLength)\<close>, with \<open>None\<close> for a \<open>scale2\<close> left
  \<^verbatim>\<open>undefined\<close>.
\<close>

definition serializeScale :: "nat \<Rightarrow> nat option \<Rightarrow> nat \<times> nat option \<times> nat" where
  "serializeScale version scale =
     (case scale of
        None \<Rightarrow> (0, None, 0)
      | Some s \<Rightarrow>
          if 4 \<le> version \<and> 7 \<le> s then (7, Some (drop_bit 3 (take_bit 32 s)), 2)
          else if 3 \<le> version then (s AND 7, None, 1)
          else if 2 \<le> version then (s AND 3, None, 1)
          else (0, None, 0))"

definition MeterCCGet_serialize :: "nat \<Rightarrow> MeterCCGet \<Rightarrow> error + byte list" where
  "MeterCCGet_serialize version cc =
     (case serializeScale version (g_scale cc) of
        (scale1, scale2, bufferLength0) \<Rightarrow>
          (let (rateTypeFlags, bufferLength) =
                 (case g_rateType cc of
                    Some rt \<Rightarrow>
                      if 4 \<le> version then (rt AND 3, max bufferLength0 1)
                      else (0, bufferLength0)
                  | None \<Rightarrow> (0, bufferLength0));
               payload0 = replicate bufferLength 0;
               payload1 = bufferSet payload0 0 (push_bit 6 rateTypeFlags OR push_bit 3 scale1);
               payload2 = (case scale2 of
                             Some s2 \<Rightarrow> if s2 \<noteq> 0 then bufferSet payload1 1 s2 else payload1
                           | None \<Rightarrow> payload1)
           in Inr payload2))"

subsection \<open>MeterCCSupportedReport: the constructor decodes a payload\<close>

record MeterCCSupportedReport =
  sr_type :: nat
  sr_supportsReset :: bool
  sr_supportedScales :: "nat list"
  sr_supportedRateTypes :: "nat list"

text \<open>\<^verbatim>\<open>Buffer.slice(start, end)\<close> for \<open>start \<le> end\<close>; it stops at the end of the buffer.\<close>

definition slice :: "'a list \<Rightarrow> nat \<Rightarrow> nat \<Rightarrow> 'a list" where
  "slice buf start end' = take (end' - start) (drop start buf)"

text \<open>
  Lines 217 to 220: the bit mask of the spread form, the first byte without its top bit
  and the extra bytes after the count.
\<close>

definition spreadBitMask :: "byte list \<Rightarrow> byte list" where
  "spreadBitMask payload =
     (payload ! 1 AND 0x7F) # slice payload 3 (3 + unat (payload ! 2))"

text \<open>Lines 208 to 229: the supported scales, compact or spread.\<close>

definition readSupportedScales :: "byte list \<Rightarrow> error + nat list" where
  "readSupportedScales payload =
     (let hasMoreScales = (unat (payload ! 1) AND 0x80 \<noteq> 0)
      in if hasMoreScales then
           (case validatePayload (3 \<le> length payload) of
              Inl e \<Rightarrow> Inl e
            | Inr _ \<Rightarrow>
                (let extraBytes = unat (payload ! 2)
                 in case validatePayload (3 + extraBytes \<le> length payload) of
                      Inl e \<Rightarrow> Inl e
                    | Inr _ \<Rightarrow>
                        Inr (map (\<lambda>scale. if 8 \<le> scale then scale - 1 else scale)
                               (parseBitMask (spreadBitMask payload) 0))))
         else Inr (parseBitMask [payload ! 1] 0))"

definition MeterCCSupportedReport_new ::
  "nat \<Rightarrow> byte list \<Rightarrow> error + MeterCCSupportedReport" where
  "MeterCCSupportedReport_new version payload =
     (case validatePayload (2 \<le> length payload) of
        Inl e \<Rightarrow> Inl e
      | Inr _ \<Rightarrow>
          (let type = unat (payload ! 0) AND 0x1F;
               supportsReset = (unat (payload ! 0) AND 0x80 \<noteq> 0)
           in case readSupportedScales payload of
                Inl e \<Rightarrow> Inl e
              | Inr supportedScales \<Rightarrow>
                  Inr \<lparr>sr_type = type,
                       sr_supportsReset = supportsReset,
                       sr_supportedScales = supportedScales,
                       sr_supportedRateTypes =
                         parseBitMask [of_nat (drop_bit 5 (unat (payload ! 0) AND 0x60))] 1\<rparr>))"

section \<open>Evaluation lemmas\<close>

lemma replicate_two: "replicate 2 x = [x, x]"
  by (simp add: numeral_2_eq_2)

lemmas report_defs = MeterCCReport_new_def validatePayload_def parseFloatWithScale_def
  byteSize_def readIntBE_def readUIntBE_def lookupMeterScale_def readScale2_def
  readPreviousValue_def readUInt16BE_def unknownNumber_def

lemmas get_defs = MeterCCGet_serialize_def serializeScale_def bufferSet_def replicate_two

section \<open>The scaled-numeric codec\<close>

lemma byteSize_cases:
  assumes "byteSize selector = Some sz"
  shows "sz = 1 \<or> sz = 2 \<or> sz = 4"
  using assms by (auto simp: byteSize_def split: if_splits)

lemma byteSize_pos:
  assumes "byteSize selector = Some sz"
  shows "Suc 0 \<le> sz"
  using byteSize_cases [OF assms] by auto

lemma parseFloatWithScale_Inr:
  assumes "parseFloatWithScale bs = Inr cur"
  obtains d rest sz where "bs = d # rest"
    and "byteSize (drop_bit 3 (unat d AND 0x18)) = Some sz"
    and "sz \<le> length rest"
    and "cur = \<lparr>fws_value = \<lparr>magnitude = readIntBE (take sz rest),
                                 precision = drop_bit 5 (unat d AND 0xE0)\<rparr>,
                  fws_scale = unat d AND 0x07,
                  fws_bytesRead = 1 + sz\<rparr>"
  using assms
  by (auto simp: parseFloatWithScale_def Let_def split: list.splits option.splits if_splits)

lemma parseFloatWithScale_bytesRead:
  assumes "parseFloatWithScale bs = Inr cur"
  shows "1 \<le> fws_bytesRead cur - 1" and "fws_bytesRead cur \<le> length bs" and "2 \<le> fws_bytesRead cur"
  using assms
  by (auto elim!: parseFloatWithScale_Inr dest: byteSize_pos)

lemma parseFloatWithScale_same_descriptor:
  assumes "parseFloatWithScale (d # xs) = Inr a"
    and "parseFloatWithScale (d # ys) = Inr b"
  shows "precision (fws_value b) = precision (fws_value a)"
    and "fws_scale b = fws_scale a"
    and "fws_bytesRead b = fws_bytesRead a"
    and "magnitude (fws_value b) = readIntBE (take (fws_bytesRead a - 1) ys)"
  using assms
  by (auto elim!: parseFloatWithScale_Inr)

lemma drop_one_payload:
  assumes "2 \<le> length payload"
  shows "drop 1 payload = payload ! 1 # drop 2 payload"
  using assms
  by (metis Cons_nth_drop_Suc One_nat_def Suc_1 Suc_le_lessD)

section \<open>Payloads shorter than two bytes\<close>

text \<open>
  Claim C6. A Report or SupportedReport payload shorter than 2 bytes is refused by the
  first statement of the constructor: decoding fails with the typed payload-too-short
  validation error, and no command object, complete or partial, is returned.
\<close>

theorem short_payload_rejected:
  assumes "length payload < 2"
  shows "MeterCCReport_new version payload = Inl PayloadTooShort \<and>
         MeterCCSupportedReport_new version payload = Inl PayloadTooShort \<and>
         (\<nexists>r. MeterCCReport_new version payload = Inr r) \<and>
         (\<nexists>r. MeterCCSupportedReport_new version payload = Inr r)"
  using assms
  by (simp add: MeterCCReport_new_def MeterCCSupportedReport_new_def validatePayload_def)

theorem short_payload_rejected_witness:
  "length [0x21 :: byte] < 2 \<and>
   MeterCCReport_new 4 [0x21] = Inl PayloadTooShort \<and>
   MeterCCSupportedReport_new 4 [0x21] = Inl PayloadTooShort \<and>
   (\<nexists>r. MeterCCReport_new 4 [0x21] = Inr r) \<and>
   (\<nexists>r. MeterCCSupportedReport_new 4 [0x21] = Inr r)"
  using short_payload_rejected [of "[0x21]" 4] by simp

section \<open>MeterCCGet.serialize\<close>

text \<open>
  Claim C2. With version 4 and a requested scale of at least 7 the payload has 2 bytes and
  the scale field of byte 0 is 7, but the extension byte is the scale shifted right by 3
  bits, not the scale minus 7. For scale 9 the payload is \<open>[0x38, 0x01]\<close>, where the claim
  asks for a second byte of 2; the Report decoder would read this payload back as scale 8.
\<close>

theorem get_extension_byte_is_shifted_scale:
  "MeterCCGet_serialize 4 \<lparr>g_rateType = None, g_scale = Some 9\<rparr> = Inr [0x38, 0x01]"
  by (simp add: get_defs)

text \<open>
  Claim C8, as stated: a scale of at least 7 under a version below 4 makes the encoding
  fail. It does not: \<^verbatim>\<open>serialize\<close> raises nothing. Version 3 with scale 8 gives the
  one-byte payload \<open>[0x00]\<close>.
\<close>

theorem get_no_encode_error_counterexample:
  "MeterCCGet_serialize 3 \<lparr>g_rateType = None, g_scale = Some 8\<rparr> = Inr [0x00] \<and>
   \<not> (\<exists>e. MeterCCGet_serialize 3 \<lparr>g_rateType = None, g_scale = Some 8\<rparr> = Inl e)"
  by (simp add: get_defs)

text \<open>
  Claim C8, amended. With a version below 4 and a requested scale of at least 7 the
  encoding succeeds and the scale is truncated: version 3 writes the low 3 bits of the
  scale into bits 5..3 of a one-byte payload, version 2 writes the low 2 bits, and a
  version below 2 gives the empty payload. A requested rate type is not written below
  version 4.
\<close>

theorem get_truncates_scale:
  assumes "version < 4" and "7 \<le> s"
  shows "MeterCCGet_serialize version \<lparr>g_rateType = rt, g_scale = Some s\<rparr> =
           Inr (if version = 3 then [of_nat (push_bit 3 (s AND 7))]
                else if version = 2 then [of_nat (push_bit 3 (s AND 3))]
                else [])"
  using assms
  by (cases rt) (auto simp: get_defs)

theorem get_truncates_scale_witness:
  "(3::nat) < 4 \<and> (7::nat) \<le> 8 \<and>
   MeterCCGet_serialize 3 \<lparr>g_rateType = Some 1, g_scale = Some 8\<rparr> = Inr [0x00]"
  using get_truncates_scale [of 3 8 "Some 1"] by simp

section \<open>MeterCCReport: the delta time and the previous value\<close>

text \<open>
  The constructor parses the current value from \<open>drop 1 payload\<close>, so the value ends at
  index \<open>1 + bytesRead\<close> of the payload. It goes on reading at \<open>2 + bytesRead\<close>: one byte
  after the end of the value. The next two theorems evaluate it on payloads whose delta
  time stands right after the value.
\<close>

text \<open>
  Claim C4. Version 2, payload \<open>[0x21, 0x08, 0x05, 0x00, 0x00, 0x05, 0x09, 0x07]\<close>: a
  one-byte value 5, the delta-time bytes \<open>0x00 0x00\<close> and three more bytes. The claim asks
  for no previous value. The constructor reads the delta time one byte late, as
  \<open>0x00 0x05\<close>, and decodes the previous value 9.
\<close>

theorem report_zero_deltaTime_previousValue_present:
  "MeterCCReport_new 2 [0x21, 0x08, 0x05, 0x00, 0x00, 0x05, 0x09, 0x07] =
     Inr \<lparr>r_type = 1, r_scale = \<lparr>ms_meterType = 1, ms_key = 0\<rparr>,
          r_value = \<lparr>magnitude = 5, precision = 0\<rparr>,
          r_previousValue = Some \<lparr>magnitude = 9, precision = 0\<rparr>,
          r_rateType = 1, r_deltaTime = Some (Known 5)\<rparr>"
  by (simp add: report_defs)

text \<open>
  Claim C5. Version 2, payload \<open>[0x21, 0x08, 0x05, 0xFF, 0xFF]\<close>: a one-byte value 5 and
  exactly two more bytes, \<open>0xFF 0xFF\<close>. The claim asks for the unknown marker. The
  constructor finds too few bytes after its offset and sets the delta time to 0. With one
  more byte, \<open>0x00\<close>, it reads \<open>0xFF 0x00\<close> and the delta time is 65280.
\<close>

theorem report_ffff_deltaTime_not_unknown:
  "MeterCCReport_new 2 [0x21, 0x08, 0x05, 0xFF, 0xFF] =
     Inr \<lparr>r_type = 1, r_scale = \<lparr>ms_meterType = 1, ms_key = 0\<rparr>,
          r_value = \<lparr>magnitude = 5, precision = 0\<rparr>,
          r_previousValue = None,
          r_rateType = 1, r_deltaTime = Some (Known 0)\<rparr> \<and>
   MeterCCReport_new 2 [0x21, 0x08, 0x05, 0xFF, 0xFF, 0x00] =
     Inr \<lparr>r_type = 1, r_scale = \<lparr>ms_meterType = 1, ms_key = 0\<rparr>,
          r_value = \<lparr>magnitude = 5, precision = 0\<rparr>,
          r_previousValue = None,
          r_rateType = 1, r_deltaTime = Some (Known 65280)\<rparr>"
  by (simp add: report_defs)

text \<open>
  What lines 70 to 72 and the guard of line 76 do with the two bytes the constructor has
  read at its own offset: \<open>0xFFFF\<close> becomes the unknown marker, and a delta time of 0
  leaves the previous value unassigned.
\<close>

lemma report_unknown_deltaTime_at_offset:
  assumes "MeterCCReport_new version payload = Inr r"
    and "parseFloatWithScale (drop 1 payload) = Inr cur"
    and "2 \<le> version"
    and "2 + fws_bytesRead cur + 2 \<le> length payload"
    and "readUInt16BE payload (2 + fws_bytesRead cur) = 0xFFFF"
  shows "r_deltaTime r = Some Unknown"
  using assms
  by (auto simp: MeterCCReport_new_def Let_def unknownNumber_def validatePayload_def
      split: sum.splits prod.splits if_splits)


lemma report_zero_deltaTime_guard:
  assumes "MeterCCReport_new version payload = Inr r"
    and "r_deltaTime r = Some (Known 0)"
  shows "r_previousValue r = None"
  using assms
  by (auto simp: MeterCCReport_new_def readPreviousValue_def Let_def unknownNumber_def
      split: sum.splits if_splits prod.splits)

text \<open>
  Claim C9. Every Report that decodes has its delta time assigned. Where the version is
  below 2, or fewer than 2 bytes follow the current value (which ends at index
  \<open>1 + bytesRead\<close> of the payload), the delta time is the number 0, not the unknown
  marker, and the previous value is absent.
\<close>

theorem report_deltaTime_defined:
  assumes "MeterCCReport_new version payload = Inr r"
  shows "\<exists>cur. parseFloatWithScale (drop 1 payload) = Inr cur \<and>
           r_deltaTime r \<noteq> None \<and>
           ((version < 2 \<or> length payload < 1 + fws_bytesRead cur + 2) \<longrightarrow>
              r_deltaTime r = Some (Known 0) \<and> r_previousValue r = None)"
  using assms
  by (auto simp: MeterCCReport_new_def Let_def split: sum.splits if_splits prod.splits)

theorem report_deltaTime_defined_witness:
  "\<exists>r. MeterCCReport_new 1 [0x21, 0x08, 0x05, 0xFF, 0xFF, 0x09, 0x07] = Inr r \<and>
        r_deltaTime r = Some (Known 0) \<and> r_previousValue r = None"
proof -
  have run: "MeterCCReport_new 1 [0x21, 0x08, 0x05, 0xFF, 0xFF, 0x09, 0x07] =
     Inr \<lparr>r_type = 1, r_scale = \<lparr>ms_meterType = 1, ms_key = 0\<rparr>,
          r_value = \<lparr>magnitude = 5, precision = 0\<rparr>,
          r_previousValue = None,
          r_rateType = 1, r_deltaTime = Some (Known 0)\<rparr>"
    by (simp add: report_defs)
  from report_deltaTime_defined [OF run] show ?thesis
    using run by auto
qed

section \<open>MeterCCReport: the descriptor of the previous value\<close>

lemma readPreviousValue_Some:
  assumes "readPreviousValue payload bytesRead deltaTime offset = Inr (Some pv, offset')"
  shows "\<exists>prev. parseFloatWithScale (payload ! 1 # drop offset payload) = Inr prev \<and>
           pv = fws_value prev \<and> offset + bytesRead \<le> length payload \<and> deltaTime \<noteq> Known 0"
  using assms
  by (auto simp: readPreviousValue_def split: if_splits sum.splits)

lemma report_with_previousValue:
  assumes "MeterCCReport_new version payload = Inr r"
    and "r_previousValue r = Some pv"
  shows "\<exists>cur dt offset'.
           2 \<le> length payload \<and>
           parseFloatWithScale (drop 1 payload) = Inr cur \<and>
           r_value r = fws_value cur \<and>
           readPreviousValue payload (fws_bytesRead cur) dt (2 + fws_bytesRead cur + 2) =
             Inr (Some pv, offset')"
proof -
  from assms(1) have len: "2 \<le> length payload"
    by (auto simp: MeterCCReport_new_def validatePayload_def split: if_splits)
  from assms(1) obtain cur where cur: "parseFloatWithScale (drop 1 payload) = Inr cur"
    by (auto simp: MeterCCReport_new_def Let_def split: sum.splits)
  let ?off = "2 + fws_bytesRead cur"
  show ?thesis
  proof (cases "2 \<le> version \<and> ?off + 2 \<le> length payload")
    case False
    with assms cur len show ?thesis
      by (auto simp: MeterCCReport_new_def validatePayload_def Let_def)
  next
    case True
    let ?raw = "readUInt16BE payload ?off"
    let ?dt = "if ?raw = 0xFFFF then unknownNumber else Known ?raw"
    show ?thesis
    proof (cases "readPreviousValue payload (fws_bytesRead cur) ?dt (?off + 2)")
      case (Inl e)
      with assms(1) cur len True show ?thesis
        by (simp add: MeterCCReport_new_def validatePayload_def Let_def cong: if_cong)
    next
      case (Inr res)
      obtain pv' offset' where res: "res = (pv', offset')"
        by (cases res)
      from assms(1) cur len True Inr res
      have "r_previousValue r = pv' \<and> r_value r = fws_value cur"
        by (auto simp: MeterCCReport_new_def validatePayload_def Let_def cong: if_cong)
      with assms(2) Inr res len cur show ?thesis
        by auto
    qed
  qed
qed

text \<open>
  Claim C7. A previous value, when the decoder produces one, is parsed from byte 1 of the
  payload followed by the bytes at the decoder's offset (after the two delta-time bytes it
  has read). It has the precision, the scale bits and the size of the current value; its
  magnitude is read from the bytes at that offset.
\<close>

theorem report_previousValue_shares_descriptor:
  assumes "MeterCCReport_new version payload = Inr r"
    and "r_previousValue r = Some pv"
  shows "\<exists>cur prev.
           parseFloatWithScale (drop 1 payload) = Inr cur \<and>
           parseFloatWithScale (payload ! 1 # drop (2 + fws_bytesRead cur + 2) payload) = Inr prev \<and>
           pv = fws_value prev \<and>
           precision pv = precision (r_value r) \<and>
           fws_scale prev = fws_scale cur \<and>
           fws_bytesRead prev = fws_bytesRead cur \<and>
           magnitude pv =
             readIntBE (take (fws_bytesRead cur - 1) (drop (2 + fws_bytesRead cur + 2) payload))"
proof -
  from report_with_previousValue [OF assms] obtain cur dt offset'
    where len: "2 \<le> length payload"
      and cur: "parseFloatWithScale (drop 1 payload) = Inr cur"
      and val: "r_value r = fws_value cur"
      and prv: "readPreviousValue payload (fws_bytesRead cur) dt (2 + fws_bytesRead cur + 2) =
                  Inr (Some pv, offset')"
    by blast
  from prv obtain prev
    where prev: "parseFloatWithScale (payload ! 1 # drop (2 + fws_bytesRead cur + 2) payload) = Inr prev"
      and pv: "pv = fws_value prev"
    using readPreviousValue_Some by blast
  have cur': "parseFloatWithScale (payload ! 1 # drop 2 payload) = Inr cur"
    using cur unfolding drop_one_payload [OF len] .
  note same = parseFloatWithScale_same_descriptor [OF cur' prev]
  show ?thesis
    using cur prev pv val same by auto
qed


theorem report_previousValue_shares_descriptor_witness:
  "MeterCCReport_new 2 [0x21, 0x28, 0x05, 0x00, 0x00, 0x05, 0x09, 0x07] =
     Inr \<lparr>r_type = 1, r_scale = \<lparr>ms_meterType = 1, ms_key = 0\<rparr>,
          r_value = \<lparr>magnitude = 5, precision = 1\<rparr>,
          r_previousValue = Some \<lparr>magnitude = 9, precision = 1\<rparr>,
          r_rateType = 1, r_deltaTime = Some (Known 5)\<rparr> \<and>
   (\<exists>cur prev.
      parseFloatWithScale (drop 1 [0x21, 0x28, 0x05, 0x00, 0x00, 0x05, 0x09, 0x07]) = Inr cur \<and>
      parseFloatWithScale
        ([0x21, 0x28, 0x05, 0x00, 0x00, 0x05, 0x09, 0x07] ! 1 #
         drop (2 + fws_bytesRead cur + 2) [0x21, 0x28, 0x05, 0x00, 0x00, 0x05, 0x09, 0x07]) =
        Inr prev \<and>
      fws_value prev = \<lparr>magnitude = 9, precision = 1\<rparr> \<and>
      fws_scale prev = fws_scale cur \<and>
      fws_bytesRead prev = fws_bytesRead cur)"
proof -
  let ?p = "[0x21, 0x28, 0x05, 0x00, 0x00, 0x05, 0x09, 0x07] :: byte list"
  let ?r = "\<lparr>r_type = 1, r_scale = \<lparr>ms_meterType = 1, ms_key = 0\<rparr>,
          r_value = \<lparr>magnitude = 5, precision = 1\<rparr>,
          r_previousValue = Some \<lparr>magnitude = 9, precision = 1\<rparr>,
          r_rateType = 1, r_deltaTime = Some (Known 5)\<rparr>"
  have run: "MeterCCReport_new 2 ?p = Inr ?r"
    by (simp add: report_defs)
  have pv: "r_previousValue ?r = Some \<lparr>magnitude = 9, precision = 1\<rparr>"
    by simp
  from report_previousValue_shares_descriptor [OF run pv]
  obtain cur prev
    where "parseFloatWithScale (drop 1 ?p) = Inr cur"
      and "parseFloatWithScale (?p ! 1 # drop (2 + fws_bytesRead cur + 2) ?p) = Inr prev"
      and "\<lparr>magnitude = 9, precision = 1\<rparr> = fws_value prev"
      and "fws_scale prev = fws_scale cur"
      and "fws_bytesRead prev = fws_bytesRead cur"
    by blast
  then have "\<exists>cur prev.
      parseFloatWithScale (drop 1 ?p) = Inr cur \<and>
      parseFloatWithScale (?p ! 1 # drop (2 + fws_bytesRead cur + 2) ?p) = Inr prev \<and>
      fws_value prev = \<lparr>magnitude = 9, precision = 1\<rparr> \<and>
      fws_scale prev = fws_scale cur \<and>
      fws_bytesRead prev = fws_bytesRead cur"
    by metis
  with run show ?thesis
    by (rule conjI)
qed

section \<open>MeterCCReport: the scale extension byte\<close>

text \<open>
  Claim C1, as stated: the version 4 payload \<open>[0xA1, 0x0B, 0x05, 0x03]\<close> (high scale bit
  set, scale bits 3 in the descriptor, so the composed scale is 7; a one-byte value; the
  extension byte 3) decodes to scale 10. It decodes to scale 7: the extension byte is read
  only in the branch that has read a delta time, and this payload has none.
\<close>

theorem report_extension_counterexample:
  "(\<exists>r. MeterCCReport_new 4 [0xA1, 0x0B, 0x05, 0x03] = Inr r \<and> ms_key (r_scale r) = 7) \<and>
   \<not> (\<exists>r. MeterCCReport_new 4 [0xA1, 0x0B, 0x05, 0x03] = Inr r \<and> ms_key (r_scale r) = 10)"
proof -
  have "MeterCCReport_new 4 [0xA1, 0x0B, 0x05, 0x03] =
     Inr \<lparr>r_type = 1, r_scale = \<lparr>ms_meterType = 1, ms_key = 7\<rparr>,
          r_value = \<lparr>magnitude = 5, precision = 0\<rparr>,
          r_previousValue = None,
          r_rateType = 1, r_deltaTime = Some (Known 0)\<rparr>"
    by code_simp
  then show ?thesis by simp
qed

lemma parseFloatWithScale_append:
  assumes "parseFloatWithScale (d # xs) = Inr cur"
  shows "parseFloatWithScale (d # xs @ ys) = Inr cur"
  using assms
  by (auto simp: parseFloatWithScale_def Let_def split: option.splits if_splits)

lemma report_without_deltaTime:
  assumes "2 \<le> length payload"
    and "parseFloatWithScale (drop 1 payload) = Inr cur"
    and "length payload < 2 + fws_bytesRead cur + 2"
    and "push_bit 2 (drop_bit 7 (unat (payload ! 0) AND 0x80)) OR fws_scale cur = 7"
  shows "\<exists>r. MeterCCReport_new version payload = Inr r \<and> ms_key (r_scale r) = 7"
  using assms
  by (simp add: MeterCCReport_new_def validatePayload_def Let_def lookupMeterScale_def)

text \<open>
  Claim C1, amended. A version 4 payload made of byte 0, a descriptor, the magnitude bytes
  the descriptor asks for and the extension byte 3, with composed scale 7, decodes to scale
  7: the extension byte is not read, because the payload holds no delta time. The payload
  without the extension byte decodes to scale 7 as well.
\<close>

theorem report_extension_without_deltaTime:
  assumes "parseFloatWithScale (desc # mag) = Inr cur"
    and "length mag = fws_bytesRead cur - 1"
    and "push_bit 2 (drop_bit 7 (unat b0 AND 0x80)) OR fws_scale cur = 7"
  shows "\<exists>r r'. MeterCCReport_new 4 ([b0, desc] @ mag @ [0x03]) = Inr r \<and>
                 ms_key (r_scale r) = 7 \<and>
                 MeterCCReport_new 4 ([b0, desc] @ mag) = Inr r' \<and>
                 ms_key (r_scale r') = 7"
proof -
  from assms(1) have br: "2 \<le> fws_bytesRead cur"
    by (rule parseFloatWithScale_bytesRead)
  have long: "parseFloatWithScale (drop 1 ([b0, desc] @ mag @ [0x03])) = Inr cur"
    using parseFloatWithScale_append [OF assms(1)] by simp
  have short: "parseFloatWithScale (drop 1 ([b0, desc] @ mag)) = Inr cur"
    using assms(1) by simp
  have "\<exists>r. MeterCCReport_new 4 ([b0, desc] @ mag @ [0x03]) = Inr r \<and> ms_key (r_scale r) = 7"
    using long assms(2,3) br by (intro report_without_deltaTime) auto
  moreover
  have "\<exists>r'. MeterCCReport_new 4 ([b0, desc] @ mag) = Inr r' \<and> ms_key (r_scale r') = 7"
    using short assms(2,3) br by (intro report_without_deltaTime) auto
  ultimately show ?thesis
    by blast
qed

theorem report_extension_without_deltaTime_witness:
  "parseFloatWithScale [0x0B, 0x05] =
     Inr \<lparr>fws_value = \<lparr>magnitude = 5, precision = 0\<rparr>, fws_scale = 3, fws_bytesRead = 2\<rparr> \<and>
   (\<exists>r r'. MeterCCReport_new 4 [0xA1, 0x0B, 0x05, 0x03] = Inr r \<and>
            ms_key (r_scale r) = 7 \<and>
            MeterCCReport_new 4 [0xA1, 0x0B, 0x05] = Inr r' \<and>
            ms_key (r_scale r') = 7)"
proof -
  let ?cur = "\<lparr>fws_value = \<lparr>magnitude = 5, precision = 0\<rparr>, fws_scale = 3, fws_bytesRead = 2\<rparr>"
  have p: "parseFloatWithScale [0x0B, 0x05] = Inr ?cur"
    by (simp add: report_defs)
  have l: "length [0x05 :: byte] = fws_bytesRead ?cur - 1"
    by simp
  have s: "push_bit 2 (drop_bit 7 (unat (0xA1 :: byte) AND 0x80)) OR fws_scale ?cur = 7"
    by (simp flip: numeral_3_eq_3)
  from report_extension_without_deltaTime [OF p l s] p show ?thesis
    by simp
qed

section \<open>MeterCCSupportedReport: scales and rate types\<close>

lemma hasMoreScales_iff_bit:
  "(unat (b::byte) AND 0x80 \<noteq> 0) = bit b 7"
proof -
  have "(0x80::nat) = 2 ^ 7" by simp
  then have "(unat b AND 0x80 = 0) = (\<not> bit (unat b) 7)"
    by (simp only: and_exp_eq_0_iff_not_bit)
  then show ?thesis by (simp add: bit_unsigned_iff)
qed

lemma parseBitMask_distinct: "distinct (parseBitMask bs origin)"
  by (simp add: parseBitMask_def distinct_map inj_on_def)

lemma spreadBitMask_no_7: "7 \<notin> set (parseBitMask (spreadBitMask payload) 0)"
  by (simp add: parseBitMask_def spreadBitMask_def bit_and_iff)

lemma correction_inj_on:
  assumes "7 \<notin> S"
  shows "inj_on (\<lambda>p::nat. if 8 \<le> p then p - 1 else p) S"
proof (rule inj_onI)
  fix x y assume "x \<in> S" "y \<in> S"
    and eq: "(if 8 \<le> x then x - 1 else x) = (if 8 \<le> y then y - 1 else y)"
  with assms have "x \<noteq> 7" "y \<noteq> 7" by auto
  with eq show "x = y" by (auto split: if_splits)
qed

lemma rateType_bits_bound: "drop_bit 5 (unat (b::byte) AND 0x60) < 4"
proof -
  have "drop_bit 5 (unat b AND 0x60) = take_bit 2 (drop_bit 5 (unat b))"
    by (simp add: take_bit_eq_mask mask_numeral numeral_3_eq_3)
  also have "\<dots> < 2 ^ 2" by (simp add: take_bit_eq_mod)
  finally show ?thesis by simp
qed

lemma parseBitMask_two_bits:
  assumes "k < 4"
  shows "set (parseBitMask [of_nat k] 1) \<subseteq> {1, 2}"
proof -
  from assms have "k = 0 \<or> k = 1 \<or> k = 2 \<or> k = 3" by arith
  moreover have "parseBitMask [0] 1 = []" by code_simp
  moreover have "parseBitMask [1] 1 = [1]" by code_simp
  moreover have "parseBitMask [2] 1 = [2]" by code_simp
  moreover have "parseBitMask [3] 1 = [1, 2]" by code_simp
  ultimately show ?thesis by auto
qed


lemma readSupportedScales_distinct:
  assumes "readSupportedScales payload = Inr scales"
  shows "distinct scales"
proof (cases "unat (payload ! 1) AND 0x80 \<noteq> 0")
  case False
  with assms show ?thesis
    using parseBitMask_distinct [of "[payload ! 1]" 0]
    by (simp add: readSupportedScales_def)
next
  case True
  with assms
  have "scales = map (\<lambda>p. if 8 \<le> p then p - 1 else p) (parseBitMask (spreadBitMask payload) 0)"
    by (auto simp: readSupportedScales_def validatePayload_def Let_def split: if_splits)
  then show ?thesis
    using parseBitMask_distinct [of "spreadBitMask payload" 0]
        correction_inj_on [OF spreadBitMask_no_7 [of payload]]
    by (simp add: distinct_map)
qed

text \<open>
  Claim C3. In the spread form (bit 7 of byte 1 set, byte 2 the number of extra bytes, all
  of them present) the bit mask is byte 1 without its top bit followed by the extra bytes,
  and the supported scales are its bit positions with every position from 8 on reduced by
  1. Position 7 is never set, so the correction is injective on the positions read: index 7
  comes from position 8 only, and no two positions give the same scale.
\<close>

theorem supportedReport_spread_scales:
  assumes "bit (payload ! 1) 7"
    and "3 + unat (payload ! 2) \<le> length payload"
  shows "\<exists>r. MeterCCSupportedReport_new version payload = Inr r \<and>
           spreadBitMask payload =
             (payload ! 1 AND 0x7F) # take (unat (payload ! 2)) (drop 3 payload) \<and>
           sr_supportedScales r =
             map (\<lambda>p. if 8 \<le> p then p - 1 else p) (parseBitMask (spreadBitMask payload) 0) \<and>
           7 \<notin> set (parseBitMask (spreadBitMask payload) 0) \<and>
           inj_on (\<lambda>p. if 8 \<le> p then p - 1 else p) (set (parseBitMask (spreadBitMask payload) 0)) \<and>
           distinct (sr_supportedScales r)"
proof -
  from assms have more: "unat (payload ! 1) AND 0x80 \<noteq> 0"
    by (simp only: hasMoreScales_iff_bit)
  with assms(2)
  have scales: "readSupportedScales payload =
      Inr (map (\<lambda>p. if 8 \<le> p then p - 1 else p) (parseBitMask (spreadBitMask payload) 0))"
    by (simp add: readSupportedScales_def validatePayload_def)
  from assms(2) have "2 \<le> length payload"
    by simp
  with scales obtain r where r: "MeterCCSupportedReport_new version payload = Inr r"
    and sc: "sr_supportedScales r =
      map (\<lambda>p. if 8 \<le> p then p - 1 else p) (parseBitMask (spreadBitMask payload) 0)"
    by (simp add: MeterCCSupportedReport_new_def validatePayload_def)
  have mask: "spreadBitMask payload =
      (payload ! 1 AND 0x7F) # take (unat (payload ! 2)) (drop 3 payload)"
    by (simp add: spreadBitMask_def slice_def)
  from scales have "distinct (sr_supportedScales r)"
    unfolding sc by (rule readSupportedScales_distinct)
  with r sc mask spreadBitMask_no_7 [of payload]
    correction_inj_on [OF spreadBitMask_no_7 [of payload]]
  show ?thesis
    by blast
qed

theorem supportedReport_spread_scales_witness:
  "bit ([0xE1, 0x83, 0x02, 0x81, 0x01 :: byte] ! 1) 7 \<and>
   3 + unat ([0xE1, 0x83, 0x02, 0x81, 0x01 :: byte] ! 2) \<le> length [0xE1, 0x83, 0x02, 0x81, 0x01 :: byte] \<and>
   parseBitMask (spreadBitMask [0xE1, 0x83, 0x02, 0x81, 0x01]) 0 = [0, 1, 8, 15, 16] \<and>
   (\<exists>r. MeterCCSupportedReport_new 4 [0xE1, 0x83, 0x02, 0x81, 0x01] = Inr r \<and>
        sr_supportedScales r = [0, 1, 7, 14, 15])"
proof -
  let ?p = "[0xE1, 0x83, 0x02, 0x81, 0x01] :: byte list"
  have b: "bit (?p ! 1) 7" by simp
  have l: "3 + unat (?p ! 2) \<le> length ?p" by simp
  have raw: "parseBitMask (spreadBitMask ?p) 0 = [0, 1, 8, 15, 16]"
    by code_simp
  from supportedReport_spread_scales [OF b l, of 4] obtain r
    where "MeterCCSupportedReport_new 4 ?p = Inr r"
      and "sr_supportedScales r =
        map (\<lambda>p. if 8 \<le> p then p - 1 else p) (parseBitMask (spreadBitMask ?p) 0)"
    by blast
  with raw have "\<exists>r. MeterCCSupportedReport_new 4 ?p = Inr r \<and>
        sr_supportedScales r = [0, 1, 7, 14, 15]"
    by simp
  with b l raw show ?thesis
    by blast
qed

text \<open>
  Claim C10. In every SupportedReport that decodes, the supported rate types are among
  Consumed and Produced, Unspecified is not one of them, and no scale is listed twice.
\<close>

theorem supportedReport_invariants:
  assumes "MeterCCSupportedReport_new version payload = Inr r"
  shows "set (sr_supportedRateTypes r) \<subseteq> {RateType_Consumed, RateType_Produced} \<and>
         RateType_Unspecified \<notin> set (sr_supportedRateTypes r) \<and>
         distinct (sr_supportedScales r)"
proof -
  from assms obtain scales where sc: "readSupportedScales payload = Inr scales"
    and r: "sr_supportedScales r = scales"
      "sr_supportedRateTypes r =
         parseBitMask [of_nat (drop_bit 5 (unat (payload ! 0) AND 0x60))] 1"
    by (auto simp: MeterCCSupportedReport_new_def Let_def split: sum.splits)
  from parseBitMask_two_bits [OF rateType_bits_bound [of "payload ! 0"]] r(2)
  have "set (sr_supportedRateTypes r) \<subseteq> {1, 2}"
    by simp
  then have "set (sr_supportedRateTypes r) \<subseteq> {RateType_Consumed, RateType_Produced}"
    and "RateType_Unspecified \<notin> set (sr_supportedRateTypes r)"
    by (auto simp: RateType_Consumed_def RateType_Produced_def RateType_Unspecified_def)
  moreover from sc r(1) have "distinct (sr_supportedScales r)"
    by (simp add: readSupportedScales_distinct)
  ultimately show ?thesis
    by simp
qed

theorem supportedReport_invariants_witness:
  "MeterCCSupportedReport_new 4 [0xE1, 0x83, 0x02, 0x81, 0x01] =
     Inr \<lparr>sr_type = 1, sr_supportsReset = True,
          sr_supportedScales = [0, 1, 7, 14, 15],
          sr_supportedRateTypes = [1, 2]\<rparr> \<and>
   set [1, 2] \<subseteq> {RateType_Consumed, RateType_Produced} \<and>
   RateType_Unspecified \<notin> set [1, 2 :: nat] \<and>
   distinct [0, 1, 7, 14, 15 :: nat]"
proof -
  have run: "MeterCCSupportedReport_new 4 [0xE1, 0x83, 0x02, 0x81, 0x01] =
     Inr \<lparr>sr_type = 1, sr_supportsReset = True,
          sr_supportedScales = [0, 1, 7, 14, 15],
          sr_supportedRateTypes = [1, 2]\<rparr>"
    by code_simp
  from supportedReport_invariants [OF run] run show ?thesis
    by simp
qed

end
